theory Spec2Isabelle
  imports Complex_Main "HOL-Library.AList" "HOL-Library.Char_ord" "HOL-Library.List_Lexorder"
begin

section \<open>Numbers, rounding and dictionaries\<close>

text \<open>
  Amounts are Python floats in the source. They are modelled as exact rationals: every
  arithmetic operation is exact, and \<open>round(x, n)\<close> is rounding to \<open>n\<close> decimals with ties
  going to the even neighbour. The representation error of binary floating point is not
  part of this model.
\<close>

definition round_half_even :: "rat \<Rightarrow> int" where
  "round_half_even y =
     (let f = \<lfloor>y\<rfloor>; d = y - of_int f
      in if d < 1 / 2 then f
         else if 1 / 2 < d then f + 1
         else if even f then f else f + 1)"

definition py_round :: "rat \<Rightarrow> nat \<Rightarrow> rat" where
  "py_round x ndigits = of_int (round_half_even (x * 10 ^ ndigits)) / 10 ^ ndigits"

text \<open>
  A Python dict keeps its keys in insertion order: it is an association list with
  distinct keys. \<open>d[k] = v\<close> is \<^const>\<open>AList.update\<close> (in place when the key is there, at
  the end otherwise), \<open>del d[k]\<close> is \<^const>\<open>AList.delete\<close>, \<open>d.get(k, default)\<close> is
  \<open>dict_get\<close> and \<open>k in d\<close> is \<open>dict_has\<close>.
\<close>

definition dict_get :: "('k \<times> 'v) list \<Rightarrow> 'k \<Rightarrow> 'v \<Rightarrow> 'v" where
  "dict_get d k dflt = (case map_of d k of None \<Rightarrow> dflt | Some v \<Rightarrow> v)"

definition dict_has :: "('k \<times> 'v) list \<Rightarrow> 'k \<Rightarrow> bool" where
  "dict_has d k = (map_of d k \<noteq> None)"

datatype py_error = ValueError | KeyError

section \<open>config/settings.py\<close>

definition DEFAULT_CURRENCY :: string where
  "DEFAULT_CURRENCY = ''USD''"

definition DECIMAL_PRECISION :: nat where
  "DECIMAL_PRECISION = 2"

definition MAX_TRANSACTION_AMOUNT :: rat where
  "MAX_TRANSACTION_AMOUNT = 1000000"

definition MIN_TRANSACTION_AMOUNT :: rat where
  "MIN_TRANSACTION_AMOUNT = 1 / 100"

definition DEFAULT_EXCHANGE_RATES :: "(string \<times> rat) list" where
  "DEFAULT_EXCHANGE_RATES =
     [(''USD'', 1), (''EUR'', 85 / 100), (''GBP'', 73 / 100), (''JPY'', 110),
      (''CAD'', 125 / 100), (''AUD'', 135 / 100), (''CHF'', 92 / 100), (''CNY'', 645 / 100),
      (''INR'', 745 / 10), (''BRL'', 52 / 10)]"

section \<open>modules/budget.py: the Budget class\<close>

text \<open>
  \<open>modules/data_handler.py\<close> is not among the sources, so the functions below take
  \<open>validate_positive_number\<close> as their first argument \<open>validate\<close>: it returns \<open>None\<close> for
  a rejected amount and the validated amount otherwise. The value that
  \<open>get_current_date()\<close> returns during a call is the argument \<open>now\<close>.
\<close>

record budget =
  monthly_income :: rat
  currency :: string
  categories :: "(string \<times> rat) list"
  created_date :: string
  last_updated :: string

definition Budget_init :: "string \<Rightarrow> rat \<Rightarrow> string \<Rightarrow> budget" where
  "Budget_init now income cur =
     \<lparr>monthly_income = py_round income DECIMAL_PRECISION, currency = cur,
      categories = [], created_date = now, last_updated = now\<rparr>"

definition get_total_budget :: "budget \<Rightarrow> rat" where
  "get_total_budget b = py_round (sum_list (map snd (categories b))) DECIMAL_PRECISION"

text \<open>\<open>str.strip()\<close> removes leading and trailing whitespace (the ASCII part of it here).\<close>

definition is_space :: "char \<Rightarrow> bool" where
  "is_space c = (c \<in> set [CHR '' '', CHR 0x09, CHR 0x0A, CHR 0x0B, CHR 0x0C, CHR 0x0D,
                           CHR 0x1C, CHR 0x1D, CHR 0x1E, CHR 0x1F])"

definition strip :: "string \<Rightarrow> string" where
  "strip s = rev (dropWhile is_space (rev (dropWhile is_space s)))"

text \<open>The result is the returned bool together with the budget after the call.\<close>

definition add_category ::
  "(rat \<Rightarrow> rat option) \<Rightarrow> string \<Rightarrow> budget \<Rightarrow> string \<Rightarrow> rat \<Rightarrow> bool \<times> budget" where
  "add_category validate now b category amount =
     (if category = [] \<or> strip category = [] then (False, b)
      else case validate amount of
        None \<Rightarrow> (False, b)
      | Some validated_amount \<Rightarrow>
          (let old_amount = dict_get (categories b) category 0;
               b1 = b\<lparr>categories := AList.update category validated_amount (categories b)\<rparr>
           in if get_total_budget b1 > monthly_income b1 then
                (if old_amount > 0
                 then (False, b1\<lparr>categories := AList.update category old_amount (categories b1)\<rparr>)
                 else (False, b1\<lparr>categories := AList.delete category (categories b1)\<rparr>))
              else (True, b1\<lparr>last_updated := now\<rparr>)))"

definition remove_category :: "string \<Rightarrow> budget \<Rightarrow> string \<Rightarrow> bool \<times> budget" where
  "remove_category now b category =
     (if dict_has (categories b) category
      then (True, b\<lparr>categories := AList.delete category (categories b), last_updated := now\<rparr>)
      else (False, b))"

text \<open>
  The mapping that \<open>to_dict\<close> builds and \<open>from_dict\<close> reads has five string keys; a key
  that is absent is \<open>None\<close>.
\<close>

record budget_data =
  d_monthly_income :: "rat option"
  d_currency :: "string option"
  d_categories :: "(string \<times> rat) list option"
  d_created_date :: "string option"
  d_last_updated :: "string option"

definition to_dict :: "budget \<Rightarrow> budget_data" where
  "to_dict b =
     \<lparr>d_monthly_income = Some (monthly_income b), d_currency = Some (currency b),
      d_categories = Some (categories b), d_created_date = Some (created_date b),
      d_last_updated = Some (last_updated b)\<rparr>"

definition from_dict :: "string \<Rightarrow> budget_data \<Rightarrow> py_error + budget" where
  "from_dict now data =
     (case d_monthly_income data of
        None \<Rightarrow> Inl KeyError
      | Some income \<Rightarrow>
          Inr ((Budget_init now income
                  (case d_currency data of None \<Rightarrow> DEFAULT_CURRENCY | Some c \<Rightarrow> c))
               \<lparr>categories := (case d_categories data of None \<Rightarrow> [] | Some cs \<Rightarrow> cs),
                created_date := (case d_created_date data of None \<Rightarrow> now | Some d \<Rightarrow> d),
                last_updated := (case d_last_updated data of None \<Rightarrow> now | Some d \<Rightarrow> d)\<rparr>))"

definition create_budget ::
  "(rat \<Rightarrow> rat option) \<Rightarrow> string \<Rightarrow> rat \<Rightarrow> string \<Rightarrow> py_error + budget" where
  "create_budget validate now income cur =
     (case validate income of
        None \<Rightarrow> Inl ValueError
      | Some validated_income \<Rightarrow> Inr (Budget_init now validated_income cur))"

text \<open>
  The loop of \<open>update_budget_income\<close> walks the keys of \<open>budget.categories\<close>, reads the
  entry of each key and writes the scaled amount back.
\<close>

fun scale_categories ::
  "string list \<Rightarrow> rat \<Rightarrow> (string \<times> rat) list \<Rightarrow> py_error + (string \<times> rat) list" where
  "scale_categories [] scale_factor cats = Inr cats"
| "scale_categories (category # rest) scale_factor cats =
     (case map_of cats category of
        None \<Rightarrow> Inl KeyError
      | Some old_amount \<Rightarrow>
          scale_categories rest scale_factor
            (AList.update category (py_round (old_amount * scale_factor) DECIMAL_PRECISION) cats))"

definition update_budget_income ::
  "(rat \<Rightarrow> rat option) \<Rightarrow> string \<Rightarrow> budget \<Rightarrow> rat \<Rightarrow> py_error + bool \<times> budget" where
  "update_budget_income validate now b new_income =
     (case validate new_income of
        None \<Rightarrow> Inr (False, b)
      | Some validated_income \<Rightarrow>
          if monthly_income b = 0 then Inr (True, b\<lparr>monthly_income := validated_income\<rparr>)
          else (case scale_categories (map fst (categories b))
                        (validated_income / monthly_income b) (categories b) of
                  Inl e \<Rightarrow> Inl e
                | Inr cats \<Rightarrow>
                    Inr (True, b\<lparr>categories := cats, monthly_income := validated_income,
                                 last_updated := now\<rparr>)))"

text \<open>
  Modelled from the spec: \<open>validate_positive_number\<close> of \<open>modules/data_handler.py\<close>, which
  is not among the sources. The spec's \<open>InvalidAmount\<close> is an amount that is negative,
  zero or outside the configured bounds; the bounds are those of \<open>config/settings.py\<close>.
\<close>

definition validate_positive_number :: "rat \<Rightarrow> rat option" where
  "validate_positive_number x =
     (if MIN_TRANSACTION_AMOUNT \<le> x \<and> x \<le> MAX_TRANSACTION_AMOUNT then Some x else None)"

section \<open>modules/calculator.py: the transaction queries\<close>

record transaction =
  tx_date :: string
  tx_type :: string
  tx_amount :: rat
  tx_category :: string
  tx_currency :: string
  tx_description :: string

text \<open>
  \<open>modules/currency.py\<close> is not among the sources and the clock is outside the program.
  The reconciliation functions take them in a record: \<open>convert_currency\<close> returns \<open>None\<close>
  when it fails, \<open>normalize_to_base_currency\<close> re-expresses a list of transactions in a
  currency, and \<open>days_before_now n\<close> is the date \<open>datetime.now() - timedelta(days=n)\<close>
  written with \<open>DATE_FORMAT\<close>. One reading of the clock serves a whole query.
\<close>

record collaborators =
  convert_currency :: "rat \<Rightarrow> string \<Rightarrow> string \<Rightarrow> rat option"
  normalize_to_base_currency :: "transaction list \<Rightarrow> string \<Rightarrow> transaction list"
  days_before_now :: "nat \<Rightarrow> string"

text \<open>Dates are compared as strings, character by character.\<close>

definition get_transactions_by_period ::
  "(nat \<Rightarrow> string) \<Rightarrow> transaction list \<Rightarrow> string \<Rightarrow> transaction list" where
  "get_transactions_by_period days_ago transactions period =
     (if period = ''week'' then filter (\<lambda>t. days_ago 7 \<le> tx_date t) transactions
      else if period = ''month'' then filter (\<lambda>t. days_ago 30 \<le> tx_date t) transactions
      else if period = ''quarter'' then filter (\<lambda>t. days_ago 90 \<le> tx_date t) transactions
      else if period = ''year'' then filter (\<lambda>t. days_ago 365 \<le> tx_date t) transactions
      else transactions)"

text \<open>
  The body of the loop of \<open>get_expense_breakdown\<close>, called without date filters:
  \<open>category_totals\<close> is a \<open>defaultdict(float)\<close>.
\<close>

definition expense_step ::
  "(rat \<Rightarrow> string \<Rightarrow> string \<Rightarrow> rat option) \<Rightarrow> string \<Rightarrow> transaction \<Rightarrow>
   (string \<times> rat) list \<Rightarrow> (string \<times> rat) list" where
  "expense_step convert target_currency t category_totals =
     (if tx_type t \<noteq> ''expense'' then category_totals
      else
        (let amount =
               (if tx_currency t \<noteq> target_currency
                then (case convert (tx_amount t) (tx_currency t) target_currency of
                        Some converted_amount \<Rightarrow> converted_amount
                      | None \<Rightarrow> tx_amount t)
                else tx_amount t)
         in AList.update (tx_category t)
              (dict_get category_totals (tx_category t) 0 + amount) category_totals))"

definition get_expense_breakdown ::
  "(rat \<Rightarrow> string \<Rightarrow> string \<Rightarrow> rat option) \<Rightarrow> transaction list \<Rightarrow> string \<Rightarrow>
   (string \<times> rat) list" where
  "get_expense_breakdown convert transactions target_currency =
     map (\<lambda>(category, amount). (category, py_round amount DECIMAL_PRECISION))
       (fold (expense_step convert target_currency) transactions [])"

section \<open>modules/budget.py: the reconciliation engine\<close>

text \<open>\<open>percentage_used\<close> is a float that can be \<open>float('inf')\<close>.\<close>

datatype pct = Finite rat | Infinity

fun py_round_pct :: "pct \<Rightarrow> nat \<Rightarrow> pct" where
  "py_round_pct (Finite x) n = Finite (py_round x n)"
| "py_round_pct Infinity n = Infinity"

fun pct_minus :: "pct \<Rightarrow> rat \<Rightarrow> pct" where
  "pct_minus (Finite x) y = Finite (x - y)"
| "pct_minus Infinity y = Infinity"

record entry =
  budgeted :: rat
  actual :: rat
  variance :: rat
  percentage_used :: pct
  status :: string

record summary =
  total_budgeted :: rat
  total_spent :: rat
  total_variance :: rat
  budget_utilization :: rat

text \<open>
  The comparison is one dict: the categories map to entries and the key \<open>_summary\<close>
  maps to the summary.
\<close>

datatype cmp_value = Entry entry | Summary summary

text \<open>The first steps of \<open>track_spending_vs_budget\<close>, up to \<open>actual_spending\<close>.\<close>

definition actual_spending_of ::
  "collaborators \<Rightarrow> budget \<Rightarrow> transaction list \<Rightarrow> string \<Rightarrow> (string \<times> rat) list" where
  "actual_spending_of C b transactions period =
     (let period_transactions = get_transactions_by_period (days_before_now C) transactions period;
          period_transactions =
            (if currency b \<noteq> DEFAULT_CURRENCY
             then normalize_to_base_currency C period_transactions (currency b)
             else period_transactions)
      in get_expense_breakdown (convert_currency C) period_transactions (currency b))"

text \<open>The body of the loop over \<open>budget.categories.items()\<close>.\<close>

definition budget_entry :: "(string \<times> rat) list \<Rightarrow> string \<Rightarrow> rat \<Rightarrow> entry" where
  "budget_entry actual_spending category budgeted_amount =
     (let actual_amount = dict_get actual_spending category 0;
          var = actual_amount - budgeted_amount;
          percentage =
            (if budgeted_amount > 0 then Finite (actual_amount / budgeted_amount * 100)
             else if actual_amount = 0 then Finite 0 else Infinity)
      in \<lparr>budgeted = py_round budgeted_amount DECIMAL_PRECISION,
          actual = py_round actual_amount DECIMAL_PRECISION,
          variance = py_round var DECIMAL_PRECISION,
          percentage_used = py_round_pct percentage 1,
          status = (if var > 0 then ''over'' else if var < 0 then ''under'' else ''exact'')\<rparr>)"

definition budget_step ::
  "(string \<times> rat) list \<Rightarrow> string \<times> rat \<Rightarrow>
   (string \<times> cmp_value) list \<times> rat \<times> rat \<Rightarrow> (string \<times> cmp_value) list \<times> rat \<times> rat" where
  "budget_step actual_spending item acc =
     (case (item, acc) of ((category, budgeted_amount), (comparison, budgeted_sum, spent_sum)) \<Rightarrow>
        (AList.update category (Entry (budget_entry actual_spending category budgeted_amount))
           comparison,
         budgeted_sum + budgeted_amount,
         spent_sum + dict_get actual_spending category 0))"

text \<open>The body of the loop over \<open>actual_spending.items()\<close>.\<close>

definition unbudgeted_entry :: "rat \<Rightarrow> entry" where
  "unbudgeted_entry amount =
     \<lparr>budgeted = 0, actual = py_round amount DECIMAL_PRECISION,
      variance = py_round amount DECIMAL_PRECISION, percentage_used = Infinity,
      status = ''unbudgeted''\<rparr>"

definition unbudgeted_step ::
  "budget \<Rightarrow> string \<times> rat \<Rightarrow>
   (string \<times> cmp_value) list \<times> rat \<Rightarrow> (string \<times> cmp_value) list \<times> rat" where
  "unbudgeted_step b item acc =
     (case (item, acc) of ((category, amount), (comparison, spent_sum)) \<Rightarrow>
        if \<not> dict_has (categories b) category
        then (AList.update category (Entry (unbudgeted_entry amount)) comparison,
              spent_sum + amount)
        else (comparison, spent_sum))"

definition track_spending_vs_budget ::
  "collaborators \<Rightarrow> budget \<Rightarrow> transaction list \<Rightarrow> string \<Rightarrow> (string \<times> cmp_value) list" where
  "track_spending_vs_budget C b transactions period =
     (let actual_spending = actual_spending_of C b transactions period in
      case fold (budget_step actual_spending) (categories b) ([], 0, 0) of
        (comparison1, budgeted_sum, spent_sum1) \<Rightarrow>
      case fold (unbudgeted_step b) actual_spending (comparison1, spent_sum1) of
        (comparison2, spent_sum) \<Rightarrow>
          AList.update ''_summary''
            (Summary
               \<lparr>total_budgeted = py_round budgeted_sum DECIMAL_PRECISION,
                total_spent = py_round spent_sum DECIMAL_PRECISION,
                total_variance = py_round (spent_sum - budgeted_sum) DECIMAL_PRECISION,
                budget_utilization =
                  (if budgeted_sum > 0 then py_round (spent_sum / budgeted_sum * 100) 1
                   else 0)\<rparr>)
            comparison2)"

definition get_remaining_budget :: "budget \<Rightarrow> rat" where
  "get_remaining_budget b = py_round (monthly_income b - get_total_budget b) DECIMAL_PRECISION"

text \<open>
  The result of \<open>get_budget_status\<close>. The items of the three lists are the tuples
  (category, variance, percentage_over), (category, remaining, percentage_used) and
  (category, amount).
\<close>

record budget_status =
  budget_health :: string
  status_total_budgeted :: rat
  status_total_spent :: rat
  remaining_budget :: rat
  status_budget_utilization :: rat
  over_budget_categories :: "(string \<times> rat \<times> pct) list"
  under_budget_categories :: "(string \<times> rat \<times> pct) list"
  unbudgeted_categories :: "(string \<times> rat) list"
  categories_count :: nat
  status_currency :: string

text \<open>
  The loop of \<open>get_budget_status\<close> over the comparison. It skips the key \<open>_summary\<close> and
  reads \<open>data['status']\<close> of every other value, which a summary does not have.
\<close>

fun classify ::
  "(string \<times> cmp_value) list \<Rightarrow>
   (string \<times> rat \<times> pct) list \<times> (string \<times> rat \<times> pct) list \<times> (string \<times> rat) list \<Rightarrow>
   py_error + (string \<times> rat \<times> pct) list \<times> (string \<times> rat \<times> pct) list \<times> (string \<times> rat) list" where
  "classify [] acc = Inr acc"
| "classify ((category, data) # rest) (overs, unders, unbudgeteds) =
     (if category = ''_summary'' then classify rest (overs, unders, unbudgeteds)
      else case data of
        Summary s \<Rightarrow> Inl KeyError
      | Entry e \<Rightarrow>
          if status e = ''over''
          then classify rest
                 (overs @ [(category, variance e, pct_minus (percentage_used e) 100)],
                  unders, unbudgeteds)
          else if status e = ''under''
          then classify rest
                 (overs, unders @ [(category, - variance e, percentage_used e)], unbudgeteds)
          else if status e = ''unbudgeted''
          then classify rest (overs, unders, unbudgeteds @ [(category, actual e)])
          else classify rest (overs, unders, unbudgeteds))"

definition get_budget_status ::
  "collaborators \<Rightarrow> budget \<Rightarrow> transaction list \<Rightarrow> py_error + budget_status" where
  "get_budget_status C b transactions =
     (let spending_comparison = track_spending_vs_budget C b transactions ''month'' in
      case map_of spending_comparison ''_summary'' of
        None \<Rightarrow> Inl KeyError
      | Some (Entry e) \<Rightarrow> Inl KeyError
      | Some (Summary s) \<Rightarrow>
          (case classify spending_comparison ([], [], []) of
             Inl err \<Rightarrow> Inl err
           | Inr (overs, unders, unbudgeteds) \<Rightarrow>
               Inr \<lparr>budget_health =
                      (if total_variance s \<le> 0 then ''healthy'' else ''over_budget''),
                    status_total_budgeted = total_budgeted s,
                    status_total_spent = total_spent s,
                    remaining_budget = get_remaining_budget b,
                    status_budget_utilization = budget_utilization s,
                    over_budget_categories = overs,
                    under_budget_categories = unders,
                    unbudgeted_categories = unbudgeteds,
                    categories_count = length (categories b),
                    status_currency = currency b\<rparr>))"

text \<open>
  A suggestion of \<open>suggest_budget_adjustments\<close>, without its \<open>reason\<close>, a text for the
  reader.
\<close>

record suggestion =
  s_category :: string
  s_type :: string
  current_amount :: rat
  suggested_amount :: rat
  priority :: string

text \<open>The \<open>if\<close>/\<open>elif\<close> chain in the loop of \<open>suggest_budget_adjustments\<close>.\<close>

definition suggest_for :: "string \<Rightarrow> entry \<Rightarrow> suggestion option" where
  "suggest_for category data =
     (if status data = ''over'' \<and> variance data > budgeted data * (1 / 10) then
        Some \<lparr>s_category = category, s_type = ''increase'', current_amount = budgeted data,
              suggested_amount =
                py_round (budgeted data + variance data * (12 / 10)) DECIMAL_PRECISION,
              priority = (if variance data > budgeted data * (25 / 100)
                          then ''high'' else ''medium'')\<rparr>
      else if status data = ''under'' \<and> \<bar>variance data\<bar> > budgeted data * (3 / 10) then
        Some \<lparr>s_category = category, s_type = ''decrease'', current_amount = budgeted data,
              suggested_amount =
                py_round (max (budgeted data - \<bar>variance data\<bar> * (5 / 10))
                              (actual data * (11 / 10))) DECIMAL_PRECISION,
              priority = ''low''\<rparr>
      else if status data = ''unbudgeted'' \<and> actual data > 0 then
        Some \<lparr>s_category = category, s_type = ''add'', current_amount = 0,
              suggested_amount = py_round (actual data * (12 / 10)) DECIMAL_PRECISION,
              priority = ''medium''\<rparr>
      else None)"

fun collect_suggestions ::
  "(string \<times> cmp_value) list \<Rightarrow> suggestion list \<Rightarrow> py_error + suggestion list" where
  "collect_suggestions [] suggestions = Inr suggestions"
| "collect_suggestions ((category, data) # rest) suggestions =
     (if category = ''_summary'' then collect_suggestions rest suggestions
      else case data of
        Summary s \<Rightarrow> Inl KeyError
      | Entry e \<Rightarrow>
          collect_suggestions rest
            (case suggest_for category e of
               None \<Rightarrow> suggestions
             | Some sg \<Rightarrow> suggestions @ [sg]))"

definition priority_order :: "(string \<times> nat) list" where
  "priority_order = [(''high'', 3), (''medium'', 2), (''low'', 1)]"

definition priority_weight :: "suggestion \<Rightarrow> nat" where
  "priority_weight x = dict_get priority_order (priority x) 0"

text \<open>
  \<open>list.sort(key=..., reverse=True)\<close>: the list is reversed, sorted by a stable ascending
  sort and reversed again.
\<close>

definition py_sort_reverse :: "('a \<Rightarrow> nat) \<Rightarrow> 'a list \<Rightarrow> 'a list" where
  "py_sort_reverse key xs = rev (sort_key key (rev xs))"

definition suggest_budget_adjustments ::
  "collaborators \<Rightarrow> budget \<Rightarrow> transaction list \<Rightarrow> py_error + suggestion list" where
  "suggest_budget_adjustments C b transactions =
     (case collect_suggestions (track_spending_vs_budget C b transactions ''month'') [] of
        Inl err \<Rightarrow> Inl err
      | Inr suggestions \<Rightarrow> Inr (py_sort_reverse priority_weight suggestions))"

record health =
  score :: rat
  health_level :: string
  health_budget_utilization :: rat
  over_budget_count :: nat
  unbudgeted_count :: nat
  recommendations_count :: nat

definition get_budget_health_score ::
  "collaborators \<Rightarrow> budget \<Rightarrow> transaction list \<Rightarrow> py_error + health" where
  "get_budget_health_score C b transactions =
     (case get_budget_status C b transactions of
        Inl err \<Rightarrow> Inl err
      | Inr st \<Rightarrow>
          (let score0 = 100;
               over_budget_penalty = of_nat (length (over_budget_categories st)) * 10;
               score1 = score0 - over_budget_penalty;
               unbudgeted_penalty = of_nat (length (unbudgeted_categories st)) * 5;
               score2 = score1 - unbudgeted_penalty;
               score3 = (if status_budget_utilization st > 95
                         then score2 - (status_budget_utilization st - 95) * 2 else score2);
               score4 = (if 80 \<le> status_budget_utilization st \<and> status_budget_utilization st \<le> 90
                         then score3 + 10 else score3);
               score5 = max 0 (min 100 score4);
               level = (if score5 \<ge> 80 then ''Excellent''
                        else if score5 \<ge> 60 then ''Good''
                        else if score5 \<ge> 40 then ''Fair''
                        else ''Poor'')
           in case suggest_budget_adjustments C b transactions of
                Inl err \<Rightarrow> Inl err
              | Inr suggestions \<Rightarrow>
                  Inr \<lparr>score = py_round score5 1, health_level = level,
                       health_budget_utilization = status_budget_utilization st,
                       over_budget_count = length (over_budget_categories st),
                       unbudgeted_count = length (unbudgeted_categories st),
                       recommendations_count = length suggestions\<rparr>))"

section \<open>Sequences of calls on a budget\<close>

text \<open>
  A call of \<open>add_category\<close> or \<open>remove_category\<close>, with the date the clock shows during
  the call; \<open>run_calls\<close> applies a list of calls in order, each to the budget that the
  calls before it have left.
\<close>

datatype budget_call = Add_category string string rat | Remove_category string string

fun apply_call :: "(rat \<Rightarrow> rat option) \<Rightarrow> budget_call \<Rightarrow> budget \<Rightarrow> budget" where
  "apply_call validate (Add_category now category amount) b =
     snd (add_category validate now b category amount)"
| "apply_call validate (Remove_category now category) b =
     snd (remove_category now b category)"

definition run_calls :: "(rat \<Rightarrow> rat option) \<Rightarrow> budget_call list \<Rightarrow> budget \<Rightarrow> budget" where
  "run_calls validate calls b = fold (apply_call validate) calls b"

text \<open>The invariant of the proof: no amount is negative and the total is within the income.\<close>

definition allocation_ok :: "budget \<Rightarrow> bool" where
  "allocation_ok b =
     ((\<forall>v \<in> snd ` set (categories b). 0 \<le> v) \<and> get_total_budget b \<le> monthly_income b)"

section \<open>Collaborators and inputs of the examples\<close>

text \<open>
  Modelled from the spec: \<open>convert_currency\<close> and \<open>normalize_to_base_currency\<close> of
  \<open>modules/currency.py\<close>, which is not among the sources. The conversion maps an amount
  and two currency codes to the converted amount through the static rate table, whose
  rates are relative to the default currency, and fails when a code is unknown. The
  normalisation re-expresses the amounts of the transactions in the given currency and
  keeps a transaction as it is when its conversion fails. The theorems below hold for
  every collaborator; these two only serve in the evaluated examples, whose transactions
  are in the budget's currency.
\<close>

definition example_convert_currency :: "rat \<Rightarrow> string \<Rightarrow> string \<Rightarrow> rat option" where
  "example_convert_currency amount from_currency to_currency =
     (case map_of DEFAULT_EXCHANGE_RATES from_currency of
        None \<Rightarrow> None
      | Some from_rate \<Rightarrow>
          (case map_of DEFAULT_EXCHANGE_RATES to_currency of
             None \<Rightarrow> None
           | Some to_rate \<Rightarrow> Some (amount / from_rate * to_rate)))"

definition example_normalize :: "transaction list \<Rightarrow> string \<Rightarrow> transaction list" where
  "example_normalize transactions cur =
     map (\<lambda>t. case example_convert_currency (tx_amount t) (tx_currency t) cur of
                 None \<Rightarrow> t
               | Some a \<Rightarrow> t\<lparr>tx_amount := a, tx_currency := cur\<rparr>) transactions"

text \<open>The clock of the examples shows 2024-12-31.\<close>

definition example_days_before_now :: "nat \<Rightarrow> string" where
  "example_days_before_now n =
     (if n = 7 then ''2024-12-24'' else if n = 30 then ''2024-12-01''
      else if n = 90 then ''2024-10-02'' else ''2024-01-01'')"

definition example_collaborators :: collaborators where
  "example_collaborators =
     \<lparr>convert_currency = example_convert_currency,
      normalize_to_base_currency = example_normalize,
      days_before_now = example_days_before_now\<rparr>"

definition expense :: "string \<Rightarrow> string \<Rightarrow> rat \<Rightarrow> transaction" where
  "expense d category amount =
     \<lparr>tx_date = d, tx_type = ''expense'', tx_amount = amount, tx_category = category,
      tx_currency = ''USD'', tx_description = []\<rparr>"

definition usd_budget :: "rat \<Rightarrow> (string \<times> rat) list \<Rightarrow> budget" where
  "usd_budget income cats =
     \<lparr>monthly_income = income, currency = ''USD'', categories = cats,
      created_date = ''2024-12-01'', last_updated = ''2024-12-01''\<rparr>"

definition zero_category_budget :: budget where
  "zero_category_budget =
     \<lparr>monthly_income = 100, currency = ''USD'', categories = [(''Food'', 0)],
      created_date = ''2024-01-01'', last_updated = ''2024-01-02''\<rparr>"


section \<open>The specification's reading of the engine\<close>

text \<open>
  The entries of a comparison in the order of the dict, without the key \<open>_summary\<close>, and
  the number of them with a given status.
\<close>

fun entries_of :: "(string \<times> cmp_value) list \<Rightarrow> (string \<times> entry) list" where
  "entries_of [] = []"
| "entries_of ((k, Entry e) # rest) =
     (if k = ''_summary'' then entries_of rest else (k, e) # entries_of rest)"
| "entries_of ((k, Summary s) # rest) = entries_of rest"

definition count_status :: "string \<Rightarrow> (string \<times> cmp_value) list \<Rightarrow> nat" where
  "count_status st comparison =
     length (filter (\<lambda>ke. status (snd ke) = st) (entries_of comparison))"

text \<open>
  The health score in the words of the specification: 100, minus 10 for each category
  over budget, minus 5 for each unbudgeted category, minus twice the excess of the
  utilization over 95, plus 10 when the utilization is within 80 and 90, clamped to the
  range from 0 to 100; and the level of a score.
\<close>

definition spec_health_score :: "nat \<Rightarrow> nat \<Rightarrow> rat \<Rightarrow> rat" where
  "spec_health_score n_over n_unbudgeted utilization =
     max 0 (min 100
       (100 - 10 * of_nat n_over - 5 * of_nat n_unbudgeted
          - (if utilization > 95 then (utilization - 95) * 2 else 0)
          + (if 80 \<le> utilization \<and> utilization \<le> 90 then 10 else 0)))"

definition spec_health_level :: "rat \<Rightarrow> string" where
  "spec_health_level sc =
     (if sc \<ge> 80 then ''Excellent'' else if sc \<ge> 60 then ''Good''
      else if sc \<ge> 40 then ''Fair'' else ''Poor'')"


text \<open>
  A comparison is well formed when every key other than \<open>_summary\<close> maps to an entry.
\<close>

definition well_formed :: "(string \<times> cmp_value) list \<Rightarrow> bool" where
  "well_formed comparison =
     (\<forall>kv \<in> set comparison. fst kv = ''_summary'' \<or> (\<exists>e. snd kv = Entry e))"

abbreviation tenths :: "rat set" where
  "tenths \<equiv> range (\<lambda>k::int. of_int k / 10)"

section \<open>Facts about rounding and dictionaries\<close>

lemma floor_rat_numeral_div:
  "\<lfloor>numeral a / numeral b :: rat\<rfloor> = numeral a div numeral b"
  by (metis floor_divide_of_int_eq of_int_numeral)

lemma floor_rat_one_div: "\<lfloor>1 / numeral b :: rat\<rfloor> = 1 div numeral b"
  by (metis floor_divide_of_int_eq of_int_numeral of_int_1)

lemma floor_rat_neg_numeral_div:
  "\<lfloor>- (numeral a / numeral b) :: rat\<rfloor> = - numeral a div numeral b"
  by (metis divide_minus_left floor_divide_of_int_eq of_int_neg_numeral of_int_numeral)

lemmas py_round_eval =
  py_round_def round_half_even_def Let_def DECIMAL_PRECISION_def
  floor_rat_numeral_div floor_rat_one_div floor_rat_neg_numeral_div

lemma round_half_even_mono: "x \<le> y \<Longrightarrow> round_half_even x \<le> round_half_even y"
proof -
  assume xy: "x \<le> y"
  have fl: "\<lfloor>x\<rfloor> \<le> \<lfloor>y\<rfloor>" using xy by (rule floor_mono)
  show ?thesis
  proof (cases "\<lfloor>x\<rfloor> = \<lfloor>y\<rfloor>")
    case True
    then show ?thesis using xy by (auto simp: round_half_even_def Let_def)
  next
    case False
    then have "\<lfloor>x\<rfloor> + 1 \<le> \<lfloor>y\<rfloor>" using fl by simp
    moreover have "round_half_even x \<le> \<lfloor>x\<rfloor> + 1" by (simp add: round_half_even_def Let_def)
    moreover have "\<lfloor>y\<rfloor> \<le> round_half_even y" by (simp add: round_half_even_def Let_def)
    ultimately show ?thesis by linarith
  qed
qed

lemma round_half_even_of_int: "round_half_even (of_int k) = k"
  by (simp add: round_half_even_def)

lemma py_round_mono: "x \<le> y \<Longrightarrow> py_round x n \<le> py_round y n"
  by (simp add: py_round_def round_half_even_mono divide_right_mono mult_right_mono)

lemma py_round_fixed: "py_round (of_int k / 10 ^ n) n = of_int k / 10 ^ n"
  by (simp add: py_round_def round_half_even_of_int)

lemma py_round_idem: "py_round (py_round x n) n = py_round x n"
  unfolding py_round_def[of x] by (rule py_round_fixed)

lemma py_round_zero: "py_round 0 n = 0"
  by (simp add: py_round_def round_half_even_def)

lemma py_round_nonneg: "0 \<le> x \<Longrightarrow> 0 \<le> py_round x n"
  using py_round_mono[of 0 x n] by (simp add: py_round_zero)

lemma dict_get_pos: "0 < dict_get d k (0::rat) \<Longrightarrow> map_of d k = Some (dict_get d k 0)"
  by (auto simp: dict_get_def split: option.splits)

lemma update_restore: "map_of d k = Some v \<Longrightarrow> AList.update k v (AList.update k w d) = d"
  by (simp add: AList.update_triv)

lemma sum_delete_le:
  "\<forall>v \<in> snd ` set d. (0::rat) \<le> v \<Longrightarrow> sum_list (map snd (AList.delete k d)) \<le> sum_list (map snd d)"
  by (induction d) (auto simp: AList.delete_eq)

lemma set_delete_subset: "set (AList.delete k d) \<subseteq> set d"
  by (auto simp: AList.delete_eq)

lemma set_update_subset: "set (AList.update k v d) \<subseteq> insert (k, v) (set d)"
  by (induction d) auto





text \<open>The equations that evaluate the functions on concrete inputs.\<close>

lemmas budget_eval =
  add_category_def remove_category_def create_budget_def update_budget_income_def
  Budget_init_def get_total_budget_def validate_positive_number_def
  MIN_TRANSACTION_AMOUNT_def MAX_TRANSACTION_AMOUNT_def dict_get_def dict_has_def
  strip_def is_space_def py_round_eval

lemmas engine_eval =
  actual_spending_of_def get_transactions_by_period_def get_expense_breakdown_def
  expense_step_def example_collaborators_def example_days_before_now_def expense_def
  usd_budget_def DEFAULT_CURRENCY_def dict_get_def dict_has_def
  track_spending_vs_budget_def budget_step_def unbudgeted_step_def budget_entry_def
  unbudgeted_entry_def py_round_eval


section \<open>The allocation invariant\<close>

lemma add_category_ok:
  assumes v: "\<And>x y. validate x = Some y \<Longrightarrow> 0 \<le> y" and ok: "allocation_ok b"
  shows "allocation_ok (snd (add_category validate now b category amount))"
proof (cases "category = [] \<or> strip category = []")
  case True
  then show ?thesis using ok by (simp add: add_category_def)
next
  case ne: False
  show ?thesis
  proof (cases "validate amount")
    case None
    then show ?thesis using ok ne by (simp add: add_category_def)
  next
    case (Some w)
    then have w: "0 \<le> w" by (rule v)
    let ?new = "AList.update category w (categories b)"
    have newvals: "\<forall>v \<in> snd ` set ?new. 0 \<le> v"
      using ok w set_update_subset[of category w "categories b"]
      by (auto simp: allocation_ok_def)
    show ?thesis
    proof (cases "py_round (sum_list (map snd ?new)) DECIMAL_PRECISION > monthly_income b")
      case over: True
      show ?thesis
      proof (cases "0 < dict_get (categories b) category 0")
        case True
        then have "AList.update category (dict_get (categories b) category 0) ?new = categories b"
          by (intro update_restore dict_get_pos)
        then show ?thesis using ok ne Some over True
          by (simp add: add_category_def get_total_budget_def Let_def allocation_ok_def)
      next
        case False
        have le: "sum_list (map snd (AList.delete category (categories b))) \<le> sum_list (map snd (categories b))"
          using ok by (intro sum_delete_le) (simp add: allocation_ok_def)
        have "py_round (sum_list (map snd (AList.delete category (categories b)))) DECIMAL_PRECISION \<le> monthly_income b"
          using py_round_mono[OF le, of DECIMAL_PRECISION] ok
          by (simp add: allocation_ok_def get_total_budget_def)
        moreover have "\<forall>v \<in> snd ` set (AList.delete category (categories b)). 0 \<le> v"
          using ok set_delete_subset[of category "categories b"] by (auto simp: allocation_ok_def)
        ultimately show ?thesis using ne Some over False
          by (simp add: add_category_def get_total_budget_def Let_def allocation_ok_def AList.delete_update_same)
      qed
    next
      case False
      then show ?thesis using ne Some newvals
        by (simp add: add_category_def get_total_budget_def Let_def allocation_ok_def)
    qed
  qed
qed

lemma remove_category_ok:
  assumes ok: "allocation_ok b"
  shows "allocation_ok (snd (remove_category now b category))"
proof -
  have le: "sum_list (map snd (AList.delete category (categories b))) \<le> sum_list (map snd (categories b))"
    using ok by (intro sum_delete_le) (simp add: allocation_ok_def)
  have "py_round (sum_list (map snd (AList.delete category (categories b)))) DECIMAL_PRECISION \<le> monthly_income b"
    using py_round_mono[OF le, of DECIMAL_PRECISION] ok
    by (simp add: allocation_ok_def get_total_budget_def)
  moreover have "\<forall>v \<in> snd ` set (AList.delete category (categories b)). 0 \<le> v"
    using ok set_delete_subset[of category "categories b"] by (auto simp: allocation_ok_def)
  ultimately show ?thesis using ok
    by (simp add: remove_category_def get_total_budget_def allocation_ok_def)
qed

lemma run_calls_ok:
  assumes v: "\<And>x y. validate x = Some y \<Longrightarrow> 0 \<le> y"
  shows "allocation_ok b \<Longrightarrow> allocation_ok (run_calls validate calls b)"
  unfolding run_calls_def
proof (induction calls arbitrary: b)
  case Nil
  then show ?case by simp
next
  case (Cons c calls)
  have "allocation_ok (apply_call validate c b)"
    using Cons.prems v by (cases c) (simp_all add: add_category_ok remove_category_ok)
  then show ?case using Cons.IH by simp
qed

lemma create_budget_ok:
  assumes v: "\<And>x y. validate x = Some y \<Longrightarrow> 0 \<le> y"
    and c: "create_budget validate now income cur = Inr b"
  shows "allocation_ok b"
proof -
  obtain w where w: "validate income = Some w" and b: "b = Budget_init now w cur"
    using c by (auto simp: create_budget_def split: option.splits)
  have "0 \<le> w" using w by (rule v)
  then show ?thesis using b
    by (simp add: allocation_ok_def Budget_init_def get_total_budget_def py_round_zero py_round_nonneg)
qed

text \<open>
  C1: for a budget that \<open>create_budget\<close> has returned and a list of \<open>add_category\<close> and
  \<open>remove_category\<close> calls, after each of the calls (after the first \<open>n\<close> of them, for
  every \<open>n\<close>) the total budgeted amount is at most the monthly income. The validation of
  amounts, which is not among the sources, is taken to return no negative amount.
\<close>

theorem total_within_income:
  assumes "\<forall>x y. validate x = Some y \<longrightarrow> 0 \<le> y"
    and "create_budget validate now income cur = Inr b"
  shows "get_total_budget (run_calls validate (take n calls) b)
           \<le> monthly_income (run_calls validate (take n calls) b)"
proof -
  have "allocation_ok (run_calls validate (take n calls) b)"
    using assms by (intro run_calls_ok create_budget_ok[of validate now income cur]) auto
  then show ?thesis by (simp add: allocation_ok_def)
qed

theorem total_within_income_witness:
  "create_budget validate_positive_number ''2024-01-01'' 1000 ''USD''
     = Inr (Budget_init ''2024-01-01'' 1000 ''USD'')
   \<and> get_total_budget
       (run_calls validate_positive_number
          (take 2 [Add_category ''2024-01-02'' ''Food'' 500,
                   Add_category ''2024-01-03'' ''Rent'' 600,
                   Remove_category ''2024-01-04'' ''Food''])
          (Budget_init ''2024-01-01'' 1000 ''USD''))
     \<le> monthly_income
       (run_calls validate_positive_number
          (take 2 [Add_category ''2024-01-02'' ''Food'' 500,
                   Add_category ''2024-01-03'' ''Rent'' 600,
                   Remove_category ''2024-01-04'' ''Food''])
          (Budget_init ''2024-01-01'' 1000 ''USD''))"
proof -
  have v: "\<forall>x y. validate_positive_number x = Some y \<longrightarrow> 0 \<le> y"
    by (auto simp: validate_positive_number_def MIN_TRANSACTION_AMOUNT_def split: if_splits)
  have c: "create_budget validate_positive_number ''2024-01-01'' 1000 ''USD''
             = Inr (Budget_init ''2024-01-01'' 1000 ''USD'')"
    by (simp add: create_budget_def validate_positive_number_def MIN_TRANSACTION_AMOUNT_def
          MAX_TRANSACTION_AMOUNT_def)
  show ?thesis
    using c total_within_income[OF v c, of 2
            "[Add_category ''2024-01-02'' ''Food'' 500,
              Add_category ''2024-01-03'' ''Rent'' 600,
              Remove_category ''2024-01-04'' ''Food'']"]
    by simp
qed

text \<open>
  C10: \<open>from_dict\<close> installs the categories of its input as they are. For the mapping
  with income 100 and the single category Food = 200 it returns a budget whose total
  allocation, 200, is greater than its income, 100.
\<close>

theorem from_dict_no_validation:
  "\<exists>b. from_dict ''2024-01-01''
          \<lparr>d_monthly_income = Some 100, d_currency = None,
           d_categories = Some [(''Food'', 200)], d_created_date = None,
           d_last_updated = None\<rparr> = Inr b
       \<and> get_total_budget b = 200 \<and> monthly_income b = 100
       \<and> get_total_budget b > monthly_income b"
  by (simp add: from_dict_def Budget_init_def get_total_budget_def py_round_eval)

section \<open>Rejected calls\<close>

text \<open>
  A call of \<open>add_category\<close> that returns False leaves the whole budget as it was when
  the category was absent before the call or its amount was greater than 0.
\<close>

lemma delete_absent: "map_of d k = None \<Longrightarrow> AList.delete k d = d"
  by (induction d) (auto split: if_splits)

lemma add_category_rejected_unchanged:
  assumes r: "fst (add_category validate now b category amount) = False"
    and k: "\<not> dict_has (categories b) category \<or> 0 < dict_get (categories b) category 0"
  shows "snd (add_category validate now b category amount) = b"
proof (cases "category = [] \<or> strip category = []")
  case True
  then show ?thesis by (simp add: add_category_def)
next
  case ne: False
  show ?thesis
  proof (cases "validate amount")
    case None
    then show ?thesis using ne by (simp add: add_category_def)
  next
    case (Some w)
    show ?thesis
    proof (cases "0 < dict_get (categories b) category 0")
      case True
      then have "AList.update category (dict_get (categories b) category 0)
                   (AList.update category w (categories b)) = categories b"
        by (intro update_restore dict_get_pos)
      then show ?thesis using r ne Some True
        by (simp add: add_category_def Let_def split: if_splits)
    next
      case False
      then have "map_of (categories b) category = None"
        using k by (simp add: dict_has_def)
      then have "AList.delete category (AList.update category w (categories b)) = categories b"
        by (simp add: AList.delete_update_same delete_absent)
      then show ?thesis using r ne Some False
        by (simp add: add_category_def Let_def split: if_splits)
    qed
  qed
qed


text \<open>
  C2: a call of \<open>add_category\<close> that returns False should leave the categories as they
  were. On this run it does not. A budget with income 1000 gets the category Food with
  0.01; \<open>update_budget_income\<close> to 100 rescales Food to round(0.001, 2) = 0; then
  \<open>add_category\<close> of Food with 200 exceeds the income and returns False, and its rollback,
  which restores the old amount only when it is greater than 0, deletes Food.
\<close>

theorem add_category_rollback_drops_zero:
  "update_budget_income validate_positive_number ''2024-01-02''
     (snd (add_category validate_positive_number ''2024-01-01''
             (Budget_init ''2024-01-01'' 1000 ''USD'') ''Food'' (1 / 100))) 100
     = Inr (True, zero_category_budget)
   \<and> add_category validate_positive_number ''2024-01-03'' zero_category_budget ''Food'' 200
     = (False, zero_category_budget\<lparr>categories := []\<rparr>)"
  by (simp add: budget_eval zero_category_budget_def)

text \<open>
  C3, as stated, fails: \<open>create_budget\<close> with an income that the validation rejects
  raises ValueError.
\<close>

theorem create_budget_raises:
  "create_budget validate_positive_number ''2024-01-01'' (- 5) ''USD'' = Inl ValueError"
  by (simp add: budget_eval)

text \<open>
  C3, amended: when the validation rejects the number, \<open>create_budget\<close> raises
  ValueError, while \<open>add_category\<close> and \<open>update_budget_income\<close> raise nothing: they
  return False and leave the budget as it was.
\<close>

theorem validation_failure_signals:
  "validate x = None \<Longrightarrow>
     create_budget validate now x cur = Inl ValueError
     \<and> add_category validate now b category x = (False, b)
     \<and> update_budget_income validate now b x = Inr (False, b)"
  by (simp add: create_budget_def add_category_def update_budget_income_def)

theorem validation_failure_signals_witness:
  "validate_positive_number 0 = None
   \<and> create_budget validate_positive_number ''2024-01-01'' 0 ''USD'' = Inl ValueError
   \<and> add_category validate_positive_number ''2024-01-01'' zero_category_budget ''Food'' 0
       = (False, zero_category_budget)
   \<and> update_budget_income validate_positive_number ''2024-01-01'' zero_category_budget 0
       = Inr (False, zero_category_budget)"
proof -
  have h: "validate_positive_number 0 = None"
    by (simp add: validate_positive_number_def MIN_TRANSACTION_AMOUNT_def)
  show ?thesis
    using h validation_failure_signals[of validate_positive_number 0 "''2024-01-01''" "''USD''" zero_category_budget "''Food''"]
    by simp
qed

section \<open>Rescaling and serialization\<close>





text \<open>
  C9, as stated, fails: \<open>from_dict\<close> passes the income through the constructor, which
  rounds it to two decimals. A budget with the income 1234.567, which is what
  \<open>update_budget_income\<close> stores when the validation returns that number, comes back with
  the income 1234.57.
\<close>

theorem round_trip_counterexample:
  "from_dict ''2024-12-31'' (to_dict (usd_budget (1234567 / 1000) [(''Food'', 500)]))
     = Inr (usd_budget (123457 / 100) [(''Food'', 500)])
   \<and> monthly_income (usd_budget (123457 / 100) [(''Food'', 500)])
       \<noteq> monthly_income (usd_budget (1234567 / 1000) [(''Food'', 500)])"
  by (simp add: from_dict_def to_dict_def Budget_init_def usd_budget_def py_round_eval)

text \<open>
  C9, amended: \<open>from_dict (to_dict b)\<close> is \<open>b\<close> with its income rounded to two decimals:
  the currency, the categories and both dates are those of \<open>b\<close>, and so is the income
  when it is already rounded to two decimals, as the constructor leaves it.
\<close>

theorem round_trip:
  "from_dict now (to_dict b)
     = Inr (b\<lparr>monthly_income := py_round (monthly_income b) DECIMAL_PRECISION\<rparr>)
   \<and> (py_round (monthly_income b) DECIMAL_PRECISION = monthly_income b \<longrightarrow>
        from_dict now (to_dict b) = Inr b)"
  by (simp add: from_dict_def to_dict_def Budget_init_def)

theorem round_trip_witness:
  "py_round (monthly_income (usd_budget 1000 [(''Food'', 500)])) DECIMAL_PRECISION
     = monthly_income (usd_budget 1000 [(''Food'', 500)])
   \<and> from_dict ''2024-12-31'' (to_dict (usd_budget 1000 [(''Food'', 500)]))
       = Inr (usd_budget 1000 [(''Food'', 500)])"
  using round_trip[of "''2024-12-31''" "usd_budget 1000 [(''Food'', 500)]"]
  by (simp add: usd_budget_def py_round_eval)

section \<open>The comparison of spending and budget\<close>

lemma budget_step_pair:
  "budget_step A (k, a) (cmp, tb, ts)
     = (AList.update k (Entry (budget_entry A k a)) cmp, tb + a, ts + dict_get A k 0)"
  by (simp add: budget_step_def)

lemma unbudgeted_step_pair:
  "unbudgeted_step b (k, a) (cmp, ts)
     = (if \<not> dict_has (categories b) k
        then (AList.update k (Entry (unbudgeted_entry a)) cmp, ts + a) else (cmp, ts))"
  by (simp add: unbudgeted_step_def)




lemma fold_budget_step_entries:
  "\<forall>kv \<in> set (fst acc). \<exists>e. snd kv = Entry e \<Longrightarrow>
   \<forall>kv \<in> set (fst (fold (budget_step A) cats acc)). \<exists>e. snd kv = Entry e"
proof (induction cats arbitrary: acc)
  case Nil
  then show ?case by simp
next
  case (Cons p cats)
  obtain k a where p: "p = (k, a)" by (cases p)
  obtain cmp tb ts where acc: "acc = (cmp, tb, ts)" by (cases acc)
  have "\<forall>kv \<in> set (fst (budget_step A p acc)). \<exists>e. snd kv = Entry e"
    using Cons.prems set_update_subset[of k "Entry (budget_entry A k a)" cmp]
    by (auto simp: p acc budget_step_pair)
  then show ?case using Cons.IH by simp
qed

lemma fold_unbudgeted_step_entries:
  "\<forall>kv \<in> set (fst acc). \<exists>e. snd kv = Entry e \<Longrightarrow>
   \<forall>kv \<in> set (fst (fold (unbudgeted_step b) A acc)). \<exists>e. snd kv = Entry e"
proof (induction A arbitrary: acc)
  case Nil
  then show ?case by simp
next
  case (Cons p A)
  obtain k a where p: "p = (k, a)" by (cases p)
  obtain cmp ts where acc: "acc = (cmp, ts)" by (cases acc)
  have "\<forall>kv \<in> set (fst (unbudgeted_step b p acc)). \<exists>e. snd kv = Entry e"
    using Cons.prems set_update_subset[of k "Entry (unbudgeted_entry a)" cmp]
    by (auto simp: p acc unbudgeted_step_pair)
  then show ?case using Cons.IH by simp
qed

lemma py_round_tenths: "py_round x 1 \<in> tenths"
  by (simp add: py_round_def)

lemma track_structure:
  "\<exists>s. map_of (track_spending_vs_budget C b txs period) ''_summary'' = Some (Summary s)
       \<and> budget_utilization s \<in> tenths
       \<and> well_formed (track_spending_vs_budget C b txs period)"
proof -
  let ?A = "actual_spending_of C b txs period"
  obtain c1 tb ts1 where l1: "fold (budget_step ?A) (categories b) ([], 0, 0) = (c1, tb, ts1)"
    by (cases "fold (budget_step ?A) (categories b) ([], 0, 0)")
  obtain c2 ts where l2: "fold (unbudgeted_step b) ?A (c1, ts1) = (c2, ts)"
    by (cases "fold (unbudgeted_step b) ?A (c1, ts1)")
  have e1: "\<forall>kv \<in> set c1. \<exists>e. snd kv = Entry e"
    using fold_budget_step_entries[of "([], 0, 0)" ?A "categories b"] by (simp add: l1)
  have e2: "\<forall>kv \<in> set c2. \<exists>e. snd kv = Entry e"
    using fold_unbudgeted_step_entries[of "(c1, ts1)" b ?A] e1 by (simp add: l2)
  let ?s = "\<lparr>total_budgeted = py_round tb DECIMAL_PRECISION,
             total_spent = py_round ts DECIMAL_PRECISION,
             total_variance = py_round (ts - tb) DECIMAL_PRECISION,
             budget_utilization = (if tb > 0 then py_round (ts / tb * 100) 1 else 0)\<rparr>"
  have t: "track_spending_vs_budget C b txs period = AList.update ''_summary'' (Summary ?s) c2"
    by (simp add: track_spending_vs_budget_def Let_def l1 l2)
  have z: "(0::rat) \<in> tenths"
    by (rule range_eqI[of _ _ 0]) simp
  have u: "budget_utilization ?s \<in> tenths"
    using py_round_tenths z by simp
  have w: "well_formed (AList.update ''_summary'' (Summary ?s) c2)"
    unfolding well_formed_def
  proof
    fix kv assume "kv \<in> set (AList.update ''_summary'' (Summary ?s) c2)"
    then have "kv = (''_summary'', Summary ?s) \<or> kv \<in> set c2"
      using set_update_subset[of "''_summary''" "Summary ?s" c2] by auto
    then show "fst kv = ''_summary'' \<or> (\<exists>e. snd kv = Entry e)"
      using e2 by auto
  qed
  show ?thesis
    unfolding t using u w by (intro exI[of _ ?s]) (simp add: update_conv')
qed

lemma classify_well_formed:
  "well_formed cmp \<Longrightarrow>
   classify cmp (os, us, ns) =
     Inr (os @ map (\<lambda>(k, e). (k, variance e, pct_minus (percentage_used e) 100))
                 (filter (\<lambda>ke. status (snd ke) = ''over'') (entries_of cmp)),
          us @ map (\<lambda>(k, e). (k, - variance e, percentage_used e))
                 (filter (\<lambda>ke. status (snd ke) = ''under'') (entries_of cmp)),
          ns @ map (\<lambda>(k, e). (k, actual e))
                 (filter (\<lambda>ke. status (snd ke) = ''unbudgeted'') (entries_of cmp)))"
proof (induction cmp arbitrary: os us ns)
  case Nil
  then show ?case by simp
next
  case (Cons p cmp)
  obtain k v where p: "p = (k, v)" by (cases p)
  have wf: "well_formed cmp" using Cons.prems by (simp add: well_formed_def)
  note IH = Cons.IH[OF wf]
  show ?case
  proof (cases "k = ''_summary''")
    case True
    then show ?thesis using IH by (cases v) (simp_all add: p)
  next
    case False
    then obtain e where v: "v = Entry e" using Cons.prems by (auto simp: well_formed_def p)
    show ?thesis using False by (simp add: p v IH)
  qed
qed

lemma collect_well_formed:
  "well_formed cmp \<Longrightarrow>
   collect_suggestions cmp acc =
     Inr (acc @ List.map_filter (\<lambda>(k, e). suggest_for k e) (entries_of cmp))"
proof (induction cmp arbitrary: acc)
  case Nil
  then show ?case by (simp add: List.map_filter_simps)
next
  case (Cons p cmp)
  obtain k v where p: "p = (k, v)" by (cases p)
  have wf: "well_formed cmp" using Cons.prems by (simp add: well_formed_def)
  note IH = Cons.IH[OF wf]
  show ?case
  proof (cases "k = ''_summary''")
    case True
    then show ?thesis using IH by (cases v) (simp_all add: p)
  next
    case False
    then obtain e where v: "v = Entry e" using Cons.prems by (auto simp: well_formed_def p)
    show ?thesis using False by (cases "suggest_for k e") (simp_all add: p v IH List.map_filter_simps)
  qed
qed

lemma tenths_of_int: "of_int k \<in> tenths"
  by (rule range_eqI[of _ _ "10 * k"]) simp

lemma tenths_add: "x \<in> tenths \<Longrightarrow> y \<in> tenths \<Longrightarrow> x + y \<in> tenths"
proof -
  assume "x \<in> tenths" "y \<in> tenths"
  then obtain i j :: int where "x = of_int i / 10" "y = of_int j / 10" by auto
  then have "x + y = of_int (i + j) / 10" by (simp add: add_divide_distrib)
  then show ?thesis by (rule range_eqI)
qed

lemma tenths_diff: "x \<in> tenths \<Longrightarrow> y \<in> tenths \<Longrightarrow> x - y \<in> tenths"
proof -
  assume "x \<in> tenths" "y \<in> tenths"
  then obtain i j :: int where "x = of_int i / 10" "y = of_int j / 10" by auto
  then have "x - y = of_int (i - j) / 10" by (simp add: diff_divide_distrib)
  then show ?thesis by (rule range_eqI)
qed

lemma tenths_double: "x \<in> tenths \<Longrightarrow> x * 2 \<in> tenths"
  using tenths_add[of x x] by (simp add: mult.commute)

lemma tenths_max: "x \<in> tenths \<Longrightarrow> y \<in> tenths \<Longrightarrow> max x y \<in> tenths"
  by (simp add: max_def)

lemma tenths_min: "x \<in> tenths \<Longrightarrow> y \<in> tenths \<Longrightarrow> min x y \<in> tenths"
  by (simp add: min_def)

lemma py_round_tenths_fixed: "x \<in> tenths \<Longrightarrow> py_round x 1 = x"
  using py_round_fixed[of _ 1] by auto

lemma spec_health_score_tenths: "u \<in> tenths \<Longrightarrow> spec_health_score m n u \<in> tenths"
proof -
  assume u: "u \<in> tenths"
  have a: "(100::rat) - 10 * of_nat m - 5 * of_nat n \<in> tenths"
    using tenths_of_int[of "100 - 10 * int m - 5 * int n"] by simp
  have b: "(u - 95) * 2 \<in> tenths"
    using tenths_double[OF tenths_diff[OF u tenths_of_int[of 95]]] by simp
  have z: "(0::rat) \<in> tenths" "(100::rat) \<in> tenths" "(10::rat) \<in> tenths"
    using tenths_of_int[of 0] tenths_of_int[of 100] tenths_of_int[of 10] by simp_all
  have c: "(if u > 95 then (u - 95) * 2 else 0) \<in> tenths" using b z by simp
  have d: "(if 80 \<le> u \<and> u \<le> 90 then 10 else (0::rat)) \<in> tenths" using z by simp
  show ?thesis unfolding spec_health_score_def
    by (intro tenths_max tenths_min tenths_add tenths_diff a c d z)
qed








section \<open>Health score and suggestions\<close>

lemma health_score_let:
  assumes st: "get_budget_status C b txs = Inr st"
    and sg: "suggest_budget_adjustments C b txs = Inr sg"
  shows "get_budget_health_score C b txs =
     Inr \<lparr>score = py_round (spec_health_score (length (over_budget_categories st))
                               (length (unbudgeted_categories st))
                               (status_budget_utilization st)) 1,
          health_level = spec_health_level
                           (spec_health_score (length (over_budget_categories st))
                               (length (unbudgeted_categories st))
                               (status_budget_utilization st)),
          health_budget_utilization = status_budget_utilization st,
          over_budget_count = length (over_budget_categories st),
          unbudgeted_count = length (unbudgeted_categories st),
          recommendations_count = length sg\<rparr>"
proof -
  let ?u = "status_budget_utilization st"
  let ?m = "length (over_budget_categories st)" and ?n = "length (unbudgeted_categories st)"
  let ?base = "100 - of_nat ?m * 10 - of_nat ?n * 5 :: rat"
  have sc: "max 0 (min 100
              (if 80 \<le> ?u \<and> ?u \<le> 90
               then (if ?u > 95 then ?base - (?u - 95) * 2 else ?base) + 10
               else (if ?u > 95 then ?base - (?u - 95) * 2 else ?base)))
            = spec_health_score ?m ?n ?u"
    unfolding spec_health_score_def by (simp add: mult.commute)
  have "get_budget_health_score C b txs =
     Inr \<lparr>score = py_round (max 0 (min 100
              (if 80 \<le> ?u \<and> ?u \<le> 90
               then (if ?u > 95 then ?base - (?u - 95) * 2 else ?base) + 10
               else (if ?u > 95 then ?base - (?u - 95) * 2 else ?base)))) 1,
          health_level = spec_health_level (max 0 (min 100
              (if 80 \<le> ?u \<and> ?u \<le> 90
               then (if ?u > 95 then ?base - (?u - 95) * 2 else ?base) + 10
               else (if ?u > 95 then ?base - (?u - 95) * 2 else ?base)))),
          health_budget_utilization = ?u, over_budget_count = ?m, unbudgeted_count = ?n,
          recommendations_count = length sg\<rparr>"
    unfolding get_budget_health_score_def st sg Let_def spec_health_level_def by simp
  then show ?thesis unfolding sc .
qed

text \<open>
  C6: \<open>get_budget_health_score\<close> returns; its score is the score of the specification
  for the number of entries over budget, the number of unbudgeted entries and the
  utilization of the summary, and its level is Excellent from 80, Good from 60, Fair
  from 40 and Poor below. With no category over budget, none unbudgeted and the
  utilization 85, the score is 110 before clamping and 100 after it, and the level is
  Excellent.
\<close>

theorem health_score_formula:
  "\<exists>s h. map_of (track_spending_vs_budget C b txs ''month'') ''_summary'' = Some (Summary s)
      \<and> get_budget_health_score C b txs = Inr h
      \<and> score h = spec_health_score
                     (count_status ''over'' (track_spending_vs_budget C b txs ''month''))
                     (count_status ''unbudgeted'' (track_spending_vs_budget C b txs ''month''))
                     (budget_utilization s)
      \<and> health_level h = spec_health_level (score h)"
proof -
  let ?cmp = "track_spending_vs_budget C b txs ''month''"
  obtain s where s: "map_of ?cmp ''_summary'' = Some (Summary s)"
    and u: "budget_utilization s \<in> tenths" and wf: "well_formed ?cmp"
    using track_structure[of C b txs "''month''"] by blast
  let ?m = "count_status ''over'' ?cmp" and ?n = "count_status ''unbudgeted'' ?cmp"
  let ?sc = "spec_health_score ?m ?n (budget_utilization s)"
  obtain os us ns where cl: "classify ?cmp ([], [], []) = Inr (os, us, ns)"
    and lo: "length os = ?m" and lu: "length ns = ?n"
    by (simp add: classify_well_formed[OF wf] count_status_def)
  obtain st where st: "get_budget_status C b txs = Inr st"
    and ov: "over_budget_categories st = os" and un: "unbudgeted_categories st = ns"
    and ut: "status_budget_utilization st = budget_utilization s"
    by (simp add: get_budget_status_def Let_def s cl)
  obtain sg where sg: "suggest_budget_adjustments C b txs = Inr sg"
    by (simp add: suggest_budget_adjustments_def collect_well_formed[OF wf])
  have r: "py_round ?sc 1 = ?sc"
    by (rule py_round_tenths_fixed[OF spec_health_score_tenths[OF u]])
  obtain h where h: "get_budget_health_score C b txs = Inr h"
    and hs: "score h = py_round ?sc 1" and hl: "health_level h = spec_health_level ?sc"
    using health_score_let[OF st sg] by (simp add: ov un ut lo lu)
  show ?thesis
    using s h hs hl r by auto
qed

theorem health_score_formula_witness:
  "\<exists>h. get_budget_health_score example_collaborators (usd_budget 1000 [(''Food'', 100)])
          [expense ''2024-12-10'' ''Food'' 85] = Inr h
       \<and> score h = 100 \<and> health_level h = ''Excellent''
       \<and> spec_health_score 0 0 85 = 100
       \<and> max 0 (min 100 (100 - 10 * 0 - 5 * 0 + 10 :: rat)) = 100"
proof -
  let ?b = "usd_budget 1000 [(''Food'', 100)]"
  let ?txs = "[expense ''2024-12-10'' ''Food'' 85]"
  let ?cmp = "track_spending_vs_budget example_collaborators ?b ?txs ''month''"
  have cmp: "?cmp =
      [(''Food'', Entry \<lparr>budgeted = 100, actual = 85, variance = - 15,
                         percentage_used = Finite 85, status = ''under''\<rparr>),
       (''_summary'', Summary \<lparr>total_budgeted = 100, total_spent = 85, total_variance = - 15,
                               budget_utilization = 85\<rparr>)]"
    by (simp add: engine_eval)
  have n: "count_status ''over'' ?cmp = 0" "count_status ''unbudgeted'' ?cmp = 0"
    unfolding cmp by (simp_all add: count_status_def)
  have sc: "spec_health_score 0 0 85 = 100"
    by (simp add: spec_health_score_def)
  obtain s h where s: "map_of ?cmp ''_summary'' = Some (Summary s)"
    and h: "get_budget_health_score example_collaborators ?b ?txs = Inr h"
    and hs: "score h = spec_health_score (count_status ''over'' ?cmp)
                         (count_status ''unbudgeted'' ?cmp) (budget_utilization s)"
    and hl: "health_level h = spec_health_level (score h)"
    using health_score_formula[of example_collaborators ?b ?txs] by blast
  have u: "budget_utilization s = 85"
    using s unfolding cmp by auto
  have "score h = 100" using hs n u sc by simp
  moreover have "health_level h = ''Excellent''"
    using hl \<open>score h = 100\<close> by (simp add: spec_health_level_def)
  ultimately show ?thesis using h sc by simp
qed







end
